theory Spec2Isabelle
  imports Main "HOL-Library.Word"
begin

section \<open>Go run-time primitives used by package goSAM\<close>

text \<open>
  A Go \<^verbatim>\<open>string\<close> is a sequence of bytes, modelled as \<^typ>\<open>string\<close>.
  Indexing and slicing out of range panic at run time; the panic is a value of
  type \<open>fault\<close>, and every function that can panic returns \<open>fault + 'a\<close>.
  The functions of the standard library that the package calls (\<^verbatim>\<open>strings.Split\<close>,
  \<^verbatim>\<open>strconv.Atoi\<close>, \<^verbatim>\<open>regexp.Match\<close>) are modelled as the library documents them.
\<close>

datatype fault = IndexOutOfRange | SliceBoundsOutOfRange

abbreviation TAB :: char where
  "TAB \<equiv> CHR 0x09"

definition index :: "'a list \<Rightarrow> nat \<Rightarrow> fault + 'a" where
  \<comment> \<open>\<^verbatim>\<open>xs[i]\<close>\<close>
  "index xs i = (if i < length xs then Inr (xs ! i) else Inl IndexOutOfRange)"

definition slice :: "'a list \<Rightarrow> nat \<Rightarrow> nat \<Rightarrow> fault + 'a list" where
  \<comment> \<open>\<^verbatim>\<open>s[lo:hi]\<close>\<close>
  "slice s lo hi =
     (if lo \<le> hi \<and> hi \<le> length s then Inr (take (hi - lo) (drop lo s))
      else Inl SliceBoundsOutOfRange)"

fun Split :: "string \<Rightarrow> char \<Rightarrow> string list" where
  \<comment> \<open>\<^verbatim>\<open>strings.Split(s, sep)\<close> for a separator of one byte: the result is never empty\<close>
  "Split [] sep = [[]]"
| "Split (c # cs) sep =
     (if c = sep then [] # Split cs sep
      else (case Split cs sep of [] \<Rightarrow> [[c]] | w # ws \<Rightarrow> (c # w) # ws))"

text \<open>The values of Go's \<^verbatim>\<open>error\<close> interface that reach this package.\<close>

datatype regexp_code =
    ErrMissingRepeatArgument | ErrInvalidRepeatOp | ErrMissingBracket
  | ErrInvalidCharRange | ErrUnexpectedParen | ErrMissingParen
  | ErrTrailingBackslash | ErrOutsideFragment

datatype error =
    SAMerror string
  | PathError string
  | NumError string
  | SyntaxError regexp_code

subsection \<open>strconv.Atoi\<close>

definition isdigit :: "char \<Rightarrow> bool" where
  "isdigit c = (48 \<le> (of_char c :: int) \<and> (of_char c :: int) \<le> 57)"

definition digits_val :: "string \<Rightarrow> int" where
  "digits_val ds = foldl (\<lambda>n c. n * 10 + (of_char c - 48)) 0 ds"

definition Atoi :: "string \<Rightarrow> int \<times> error option" where
  \<comment> \<open>\<^verbatim>\<open>strconv.Atoi\<close> with a 64-bit \<^verbatim>\<open>int\<close>: an optional sign and decimal digits;
      a syntax error gives 0, a value outside the range of \<^verbatim>\<open>int\<close> gives the
      nearest bound, both with a non-nil error\<close>
  "Atoi s =
     (let neg = (s \<noteq> [] \<and> hd s = CHR ''-'');
          body = (if s \<noteq> [] \<and> (hd s = CHR ''+'' \<or> hd s = CHR ''-'') then tl s else s)
      in if body = [] \<or> \<not> list_all isdigit body then (0, Some (NumError ''invalid syntax''))
         else let un = digits_val body
              in if \<not> neg \<and> 2 ^ 63 \<le> un then (2 ^ 63 - 1, Some (NumError ''value out of range''))
                 else if neg \<and> 2 ^ 63 < un then (- (2 ^ 63), Some (NumError ''value out of range''))
                 else (if neg then - un else un, None))"

subsection \<open>unicode/utf8 and regexp\<close>

text \<open>
  Package regexp reads its subject rune by rune with \<^verbatim>\<open>utf8.DecodeRune\<close>: a byte
  sequence that is not a valid encoding yields the rune \<^verbatim>\<open>RuneError\<close> of width 1.
\<close>

type_synonym rune = int

definition RuneError :: rune where
  "RuneError = 0xFFFD"

definition acceptRange :: "int \<Rightarrow> (nat \<times> int \<times> int) option" where
  \<comment> \<open>for a leading byte: the size of the encoding and the range of its second byte\<close>
  "acceptRange b0 =
     (if 0xC2 \<le> b0 \<and> b0 \<le> 0xDF then Some (2, 0x80, 0xBF)
      else if b0 = 0xE0 then Some (3, 0xA0, 0xBF)
      else if b0 = 0xED then Some (3, 0x80, 0x9F)
      else if 0xE1 \<le> b0 \<and> b0 \<le> 0xEF then Some (3, 0x80, 0xBF)
      else if b0 = 0xF0 then Some (4, 0x90, 0xBF)
      else if 0xF1 \<le> b0 \<and> b0 \<le> 0xF3 then Some (4, 0x80, 0xBF)
      else if b0 = 0xF4 then Some (4, 0x80, 0x8F)
      else None)"

definition DecodeRune :: "string \<Rightarrow> rune \<times> nat" where
  "DecodeRune p =
     (case p of
        [] \<Rightarrow> (RuneError, 0)
      | c0 # _ \<Rightarrow>
          (let b0 = of_char c0 in
           if b0 < 0x80 then (b0, 1)
           else (case acceptRange b0 of
               None \<Rightarrow> (RuneError, 1)
             | Some (sz, lo, hi) \<Rightarrow>
                 if length p < sz then (RuneError, 1)
                 else let b1 = of_char (p ! 1) in
                   if b1 < lo \<or> hi < b1 then (RuneError, 1)
                   else if sz = 2 then (b0 mod 32 * 64 + b1 mod 64, 2)
                   else let b2 = of_char (p ! 2) in
                     if b2 < 0x80 \<or> 0xBF < b2 then (RuneError, 1)
                     else if sz = 3 then (b0 mod 16 * 4096 + b1 mod 64 * 64 + b2 mod 64, 3)
                     else let b3 = of_char (p ! 3) in
                       if b3 < 0x80 \<or> 0xBF < b3 then (RuneError, 1)
                       else (b0 mod 8 * 262144 + b1 mod 64 * 4096 + b2 mod 64 * 64 + b3 mod 64, 4))))"

lemma DecodeRune_width: "p \<noteq> [] \<Longrightarrow> 0 < snd (DecodeRune p)"
  by (cases p) (auto simp: DecodeRune_def Let_def split: option.splits)

function runes :: "string \<Rightarrow> rune list" where
  "runes [] = []"
| "runes (c # cs) = fst (DecodeRune (c # cs)) # runes (drop (snd (DecodeRune (c # cs))) (c # cs))"
  by pat_completeness auto
termination
proof (relation "measure length")
  fix c :: char and cs :: string
  have "0 < snd (DecodeRune (c # cs))"
    by (rule DecodeRune_width) simp
  then show "(drop (snd (DecodeRune (c # cs))) (c # cs), c # cs) \<in> measure length"
    by simp
qed simp

text \<open>
  Regular expressions: the fragment of the RE2 syntax that the patterns of this
  package are written in (literals, \<^verbatim>\<open>.\<close>, bracket classes with ranges, \<^verbatim>\<open>*\<close>, \<^verbatim>\<open>+\<close>,
  \<^verbatim>\<open>?\<close>, alternation, groups, \<^verbatim>\<open>^\<close> and \<^verbatim>\<open>$\<close>, \<^verbatim>\<open>\d\<close> and escaped punctuation).
  \<^verbatim>\<open>x+\<close> is kept as \<open>Cat x (Star x)\<close> and \<^verbatim>\<open>x?\<close> as \<open>Alt x Emp\<close>.
  A pattern outside the fragment is reported as \<open>ErrOutsideFragment\<close>.
\<close>

datatype re =
    Emp
  | Lit rune
  | Dot
  | Cls bool "(rune \<times> rune) list"
  | Bol
  | Eol
  | Cat re re
  | Alt re re
  | Star re

fun mk_cat :: "re list \<Rightarrow> re" where
  "mk_cat [] = Emp"
| "mk_cat [r] = r"
| "mk_cat (r # rs) = Cat r (mk_cat rs)"

fun mk_alt :: "re list \<Rightarrow> re" where
  "mk_alt [] = Emp"
| "mk_alt [r] = r"
| "mk_alt (r # rs) = Alt r (mk_alt rs)"

definition close_group :: "re list \<Rightarrow> re list \<Rightarrow> re" where
  \<comment> \<open>the alternatives seen so far and the current concatenation, both newest first\<close>
  "close_group alts cur = mk_alt (rev (mk_cat (rev cur) # alts))"

definition ispunct :: "char \<Rightarrow> bool" where
  \<comment> \<open>an ASCII byte that is neither a letter nor a digit: escaped, it stands for itself\<close>
  "ispunct c =
     (let n = (of_char c :: int)
      in n < 0x80 \<and> \<not> (48 \<le> n \<and> n \<le> 57)
         \<and> \<not> (97 \<le> n \<and> n \<le> 122) \<and> \<not> (65 \<le> n \<and> n \<le> 90))"

fun parseClass :: "bool \<Rightarrow> bool \<Rightarrow> (rune \<times> rune) list \<Rightarrow> string \<Rightarrow> regexp_code + re \<times> string" where
  \<comment> \<open>the items of a bracket class after \<^verbatim>\<open>[\<close> or \<^verbatim>\<open>[^\<close>; \<^verbatim>\<open>]\<close> is literal in first place,
      and \<^verbatim>\<open>lo-hi\<close> is a range unless the \<^verbatim>\<open>-\<close> is last\<close>
  "parseClass neg first rs [] = Inl ErrMissingBracket"
| "parseClass neg first rs (c # t) =
     (if c = CHR '']'' \<and> \<not> first then Inr (Cls neg (rev rs), t)
      else if 0x80 \<le> (of_char c :: int) \<or> c = CHR 0x5C
              \<or> (c = CHR ''['' \<and> t \<noteq> [] \<and> hd t = CHR '':'') then Inl ErrOutsideFragment
      else if length t < 2 \<or> hd t \<noteq> CHR ''-'' \<or> hd (tl t) = CHR '']''
      then parseClass neg False ((of_char c, of_char c) # rs) t
      else (let h = hd (tl t) in
            if 0x80 \<le> (of_char h :: int) \<or> h = CHR 0x5C then Inl ErrOutsideFragment
            else if (of_char h :: int) < of_char c then Inl ErrInvalidCharRange
            else parseClass neg False ((of_char c, of_char h) # rs) (tl (tl t))))"

lemma parseClass_shorter:
  "parseClass neg first rs s = Inr (r, t) \<Longrightarrow> length t < length s"
proof (induction neg first rs s rule: parseClass.induct)
  case (1 neg first rs)
  then show ?case by simp
next
  case (2 neg first rs c u)
  then show ?case
    by (auto simp: Let_def split: if_splits)
qed

definition parseBracket :: "string \<Rightarrow> regexp_code + re \<times> string" where
  \<comment> \<open>the text after \<^verbatim>\<open>[\<close>\<close>
  "parseBracket t =
     (if t \<noteq> [] \<and> hd t = CHR ''^'' then parseClass True True [] (tl t)
      else parseClass False True [] t)"

lemma parseBracket_shorter:
  "parseBracket s = Inr (r, t) \<Longrightarrow> length t < Suc (length s)"
proof -
  assume "parseBracket s = Inr (r, t)"
  then consider "parseClass True True [] (tl s) = Inr (r, t)"
    | "parseClass False True [] s = Inr (r, t)"
    by (auto simp add: parseBracket_def simp del: parseClass.simps split: if_splits)
  then show ?thesis
  proof cases
    case 1
    from parseClass_shorter[OF this] show ?thesis by simp
  next
    case 2
    from parseClass_shorter[OF this] show ?thesis by simp
  qed
qed

definition skipLazy :: "string \<Rightarrow> string" where
  \<comment> \<open>a repetition operator may be followed by \<^verbatim>\<open>?\<close> (non-greedy), which leaves the
      set of matches unchanged\<close>
  "skipLazy t = (if t \<noteq> [] \<and> hd t = CHR ''?'' then tl t else t)"

lemma skipLazy_length: "length (skipLazy t) \<le> length t"
  by (simp add: skipLazy_def)

definition repeat :: "char \<Rightarrow> re \<Rightarrow> re" where
  "repeat opc r =
     (if opc = CHR ''*'' then Star r
      else if opc = CHR ''+'' then Cat r (Star r)
      else Alt r Emp)"

function parse :: "(re list \<times> re list) list \<Rightarrow> re list \<Rightarrow> re list \<Rightarrow> bool \<Rightarrow> string \<Rightarrow> regexp_code + re" where
  \<comment> \<open>\<^verbatim>\<open>syntax.Parse(s, syntax.Perl)\<close>, one pass from left to right: \<open>fs\<close> are the enclosing
      groups, \<open>alts\<close> the alternatives and \<open>cur\<close> the concatenation being read, \<open>lastRepeat\<close>
      says that the previous operator was a repetition\<close>
  "parse fs alts cur lastRepeat [] =
     (if fs \<noteq> [] then Inl ErrMissingParen else Inr (close_group alts cur))"
| "parse fs alts cur lastRepeat (c # t) =
     (if 0x80 \<le> (of_char c :: int) then Inl ErrOutsideFragment
      else if c = CHR ''('' then
        (if t \<noteq> [] \<and> hd t = CHR ''?'' then Inl ErrOutsideFragment
         else parse ((alts, cur) # fs) [] [] False t)
      else if c = CHR ''|'' then parse fs (mk_cat (rev cur) # alts) [] False t
      else if c = CHR '')'' then
        (case fs of
           [] \<Rightarrow> Inl ErrUnexpectedParen
         | (alts', cur') # fs' \<Rightarrow> parse fs' alts' (close_group alts cur # cur') False t)
      else if c = CHR ''^'' then parse fs alts (Bol # cur) False t
      else if c = CHR ''$'' then parse fs alts (Eol # cur) False t
      else if c = CHR ''.'' then parse fs alts (Dot # cur) False t
      else if c = CHR ''['' then
        (case parseBracket t of
           Inl e \<Rightarrow> Inl e
         | Inr (cl, t') \<Rightarrow> parse fs alts (cl # cur) False t')
      else if c = CHR ''*'' \<or> c = CHR ''+'' \<or> c = CHR ''?'' then
        (if lastRepeat then Inl ErrInvalidRepeatOp
         else (case cur of
             [] \<Rightarrow> Inl ErrMissingRepeatArgument
           | r # rs \<Rightarrow> parse fs alts (repeat c r # rs) True (skipLazy t)))
      else if c = CHR ''{'' then Inl ErrOutsideFragment
      else if c = CHR 0x5C then
        (case t of
           [] \<Rightarrow> Inl ErrTrailingBackslash
         | e # t2 \<Rightarrow>
             if e = CHR ''d'' then parse fs alts (Cls False [(48, 57)] # cur) False t2
             else if ispunct e then parse fs alts (Lit (of_char e) # cur) False t2
             else Inl ErrOutsideFragment)
      else parse fs alts (Lit (of_char c) # cur) False t)"
  by pat_completeness auto
termination
  apply (relation "measure (\<lambda>(fs, alts, cur, lastRepeat, s). length s)")
  apply (simp_all only: in_measure prod.case list.size length_Cons lessI wf_measure)
  subgoal for fs alts cur lastRepeat c t b x y
    using parseBracket_shorter[of t x y] by simp
  subgoal for fs alts cur lastRepeat c t
    using skipLazy_length[of t] by simp
  done

definition inRanges :: "rune \<Rightarrow> (rune \<times> rune) list \<Rightarrow> bool" where
  "inRanges r rs = list_ex (\<lambda>p. fst p \<le> r \<and> r \<le> snd p) rs"

fun rests :: "re \<Rightarrow> bool \<Rightarrow> rune list \<Rightarrow> (bool \<times> rune list) list" where
  \<comment> \<open>\<open>rests r b w\<close>: \<open>w\<close> is the text from the current position to its end and \<open>b\<close>
      says that the position is the beginning of the text; the result lists, for
      every way in which \<open>r\<close> matches a prefix of \<open>w\<close>, what is left after it\<close>
  "rests Emp b w = [(b, w)]"
| "rests (Lit c) b w = (case w of [] \<Rightarrow> [] | x # xs \<Rightarrow> if x = c then [(False, xs)] else [])"
| "rests Dot b w = (case w of [] \<Rightarrow> [] | x # xs \<Rightarrow> if x \<noteq> 10 then [(False, xs)] else [])"
| "rests (Cls neg rs) b w =
     (case w of [] \<Rightarrow> [] | x # xs \<Rightarrow> if inRanges x rs \<noteq> neg then [(False, xs)] else [])"
| "rests Bol b w = (if b then [(b, w)] else [])"
| "rests Eol b w = (if w = [] then [(b, w)] else [])"
| "rests (Alt r s) b w = rests r b w @ rests s b w"
| "rests (Cat r s) b w = concat (map (\<lambda>p. rests s (fst p) (snd p)) (rests r b w))"
| "rests (Star r) b w =
     (b, w) # concat (map (\<lambda>p. if length (snd p) < length w then rests (Star r) (fst p) (snd p) else [])
                       (rests r b w))"

fun search :: "re \<Rightarrow> bool \<Rightarrow> rune list \<Rightarrow> bool" where
  \<comment> \<open>an unanchored match: try every starting position in turn\<close>
  "search r b [] = (rests r b [] \<noteq> [])"
| "search r b (x # xs) = (if rests r b (x # xs) \<noteq> [] then True else search r False xs)"

definition regexp_Match :: "string \<Rightarrow> string \<Rightarrow> bool \<times> error option" where
  \<comment> \<open>\<^verbatim>\<open>regexp.Match(pattern, b)\<close>: a pattern that does not compile gives false and the error\<close>
  "regexp_Match pattern b =
     (case parse [] [] [] False pattern of
        Inl e \<Rightarrow> (False, Some (SyntaxError e))
      | Inr r \<Rightarrow> (search r True (runes b), None))"

section \<open>Package goSAM\<close>

subsection \<open>Header lines\<close>

record HeaderLine =
  Version :: string
  SortOrder :: string

definition validateHeader :: "HeaderLine \<Rightarrow> bool \<times> error option" where
  "validateHeader hl =
     (let m = fst (regexp_Match ''^[0-9]+.[0-9]+$'' (Version hl))
      in if \<not> m then (m, Some (SAMerror ''Invalid version in SAM Header''))
         else (m, None))"

definition hlParseMap :: "string \<rightharpoonup> (string \<Rightarrow> HeaderLine \<Rightarrow> HeaderLine)" where
  "hlParseMap = map_of
     [(''VN'', \<lambda>val hl. hl\<lparr>Version := val\<rparr>),
      (''SO'', \<lambda>val hl. hl\<lparr>SortOrder := val\<rparr>)]"

fun parseHeader_fields :: "string list \<Rightarrow> HeaderLine \<Rightarrow> fault + HeaderLine" where
  \<comment> \<open>the loop over \<^verbatim>\<open>tvs[1:]\<close>\<close>
  "parseHeader_fields [] hl = Inr hl"
| "parseHeader_fields (tv # tvs) hl =
     (let tva = Split tv (CHR '':'') in
      case index tva 0 of Inl f \<Rightarrow> Inl f | Inr tag \<Rightarrow>
      case index tva 1 of Inl f \<Rightarrow> Inl f | Inr val \<Rightarrow>
      (case hlParseMap tag of
         Some parseFunc \<Rightarrow> parseHeader_fields tvs (parseFunc val hl)
       | None \<Rightarrow> parseHeader_fields tvs hl))"

definition parseHeader :: "string \<Rightarrow> fault + HeaderLine" where
  "parseHeader line =
     (let tvs = Split line TAB in
      case slice tvs 1 (length tvs) of Inl f \<Rightarrow> Inl f | Inr rest \<Rightarrow>
      parseHeader_fields rest \<lparr>Version = [], SortOrder = []\<rparr>)"

subsection \<open>Reference sequence dictionary lines\<close>

record RefSeqDict =
  Name :: string
  Length :: "32 word"
  AssemblyID :: string
  MD5 :: string
  Species :: string
  URI :: string

definition validateRefSeqDict :: "RefSeqDict \<Rightarrow> bool \<times> error option" where
  "validateRefSeqDict rsd =
     (let m = fst (regexp_Match ''[!-)+-<>-~][!-~]*'' (Name rsd))
      in if \<not> m then (False, Some (SAMerror ''Invalid reference sequence name''))
         else (1 \<le> Length rsd \<and> Length rsd \<le> 0x1FFFFFFF, None))"

fun parseRefSeqDict_fields :: "string list \<Rightarrow> RefSeqDict \<Rightarrow> fault + RefSeqDict" where
  "parseRefSeqDict_fields [] rsd = Inr rsd"
| "parseRefSeqDict_fields (tv # tvs) rsd =
     (let tva = Split tv (CHR '':'') in
      case index tva 0 of Inl f \<Rightarrow> Inl f | Inr tag \<Rightarrow>
      if tag = ''SN'' then
        (case index tva 1 of Inl f \<Rightarrow> Inl f
         | Inr x \<Rightarrow> parseRefSeqDict_fields tvs (rsd\<lparr>Name := x\<rparr>))
      else if tag = ''LN'' then
        (case index tva 1 of Inl f \<Rightarrow> Inl f
         | Inr x \<Rightarrow> parseRefSeqDict_fields tvs (rsd\<lparr>Length := word_of_int (fst (Atoi x))\<rparr>))
      else if tag = ''AS'' then
        (case index tva 1 of Inl f \<Rightarrow> Inl f
         | Inr x \<Rightarrow> parseRefSeqDict_fields tvs (rsd\<lparr>AssemblyID := x\<rparr>))
      else if tag = ''M5'' then
        (case index tva 1 of Inl f \<Rightarrow> Inl f
         | Inr x \<Rightarrow> parseRefSeqDict_fields tvs (rsd\<lparr>MD5 := x\<rparr>))
      else if tag = ''SP'' then
        (case index tva 1 of Inl f \<Rightarrow> Inl f
         | Inr x \<Rightarrow> parseRefSeqDict_fields tvs (rsd\<lparr>Species := x\<rparr>))
      else if tag = ''UR'' then
        (case index tva 1 of Inl f \<Rightarrow> Inl f
         | Inr x \<Rightarrow> parseRefSeqDict_fields tvs (rsd\<lparr>URI := x\<rparr>))
      else parseRefSeqDict_fields tvs rsd)"

definition parseRefSeqDict :: "string \<Rightarrow> fault + RefSeqDict" where
  "parseRefSeqDict line =
     (let tvs = Split line TAB in
      case slice tvs 1 (length tvs) of Inl f \<Rightarrow> Inl f | Inr rest \<Rightarrow>
      parseRefSeqDict_fields rest
        \<lparr>Name = [], Length = 0, AssemblyID = [], MD5 = [], Species = [], URI = []\<rparr>)"

subsection \<open>Read group lines\<close>

record ReadGroup =
  ID :: string
  SeqCenter :: string
  Description :: string
  Date :: string
  FlowOrder :: string
  KeySeq :: string
  Lib :: string
  Programs :: string
  PMIS :: string
  Platform :: string
  Unit :: string
  Sample :: string

definition validPlatforms :: "string \<Rightarrow> bool" where
  \<comment> \<open>a \<^verbatim>\<open>map[string]bool\<close>: a key that is absent reads as false\<close>
  "validPlatforms p =
     (p \<in> set [''CAPILLARY'', ''LS454'', ''ILLUMINA'', ''SOLID'', ''HELICOS'', ''IONTORRENT'', ''PACBIO''])"

definition validateReadGroup :: "ReadGroup \<Rightarrow> bool \<times> error option" where
  "validateReadGroup rg =
     (if FlowOrder rg \<noteq> [] \<and> \<not> fst (regexp_Match ''*|[ACMGRSVTWYHKDBN]+'' (FlowOrder rg))
      then (False, Some (SAMerror ''Invalid flow order in read group''))
      else if Platform rg \<noteq> [] \<and> \<not> validPlatforms (Platform rg)
      then (False, Some (SAMerror ''Invalid platform in read group''))
      else (True, None))"

definition rgParseMap :: "string \<rightharpoonup> (string \<Rightarrow> ReadGroup \<Rightarrow> ReadGroup)" where
  "rgParseMap = map_of
     [(''ID'', \<lambda>s rg. rg\<lparr>ID := s\<rparr>),
      (''CN'', \<lambda>s rg. rg\<lparr>SeqCenter := s\<rparr>),
      (''DS'', \<lambda>s rg. rg\<lparr>Description := s\<rparr>),
      (''DT'', \<lambda>s rg. rg\<lparr>Date := s\<rparr>),
      (''FO'', \<lambda>s rg. rg\<lparr>FlowOrder := s\<rparr>),
      (''KS'', \<lambda>s rg. rg\<lparr>KeySeq := s\<rparr>),
      (''LB'', \<lambda>s rg. rg\<lparr>Lib := s\<rparr>),
      (''PG'', \<lambda>s rg. rg\<lparr>Programs := s\<rparr>),
      (''PI'', \<lambda>s rg. rg\<lparr>PMIS := s\<rparr>),
      (''PL'', \<lambda>s rg. rg\<lparr>Platform := s\<rparr>),
      (''PU'', \<lambda>s rg. rg\<lparr>Unit := s\<rparr>),
      (''SM'', \<lambda>s rg. rg\<lparr>Sample := s\<rparr>)]"

fun parseReadGroup_fields :: "string list \<Rightarrow> ReadGroup \<Rightarrow> fault + ReadGroup" where
  "parseReadGroup_fields [] rg = Inr rg"
| "parseReadGroup_fields (tv # tvs) rg =
     (let tva = Split tv (CHR '':'') in
      case index tva 0 of Inl f \<Rightarrow> Inl f | Inr tag \<Rightarrow>
      case index tva 1 of Inl f \<Rightarrow> Inl f | Inr val \<Rightarrow>
      (case rgParseMap tag of
         Some parseFunc \<Rightarrow> parseReadGroup_fields tvs (parseFunc val rg)
       | None \<Rightarrow> parseReadGroup_fields tvs rg))"

definition parseReadGroup :: "string \<Rightarrow> fault + ReadGroup" where
  "parseReadGroup line =
     (let tvs = Split line TAB in
      case slice tvs 1 (length tvs) of Inl f \<Rightarrow> Inl f | Inr rest \<Rightarrow>
      parseReadGroup_fields rest
        \<lparr>ID = [], SeqCenter = [], Description = [], Date = [], FlowOrder = [], KeySeq = [],
         Lib = [], Programs = [], PMIS = [], Platform = [], Unit = [], Sample = []\<rparr>)"

subsection \<open>Program lines\<close>

record Program =
  ID :: string
  Name :: string
  CmdLine :: string
  PrevID :: string

definition validateProgram :: "Program \<Rightarrow> bool \<times> error option" where
  "validateProgram prog =
     (if Program.ID prog = [] then (False, Some (SAMerror ''Program ID is required''))
      else (True, None))"

definition programParseMap :: "string \<rightharpoonup> (string \<Rightarrow> Program \<Rightarrow> Program)" where
  "programParseMap = map_of
     [(''ID'', \<lambda>s prog. prog\<lparr>Program.ID := s\<rparr>),
      (''PN'', \<lambda>s prog. prog\<lparr>Program.Name := s\<rparr>),
      (''CL'', \<lambda>s prog. prog\<lparr>CmdLine := s\<rparr>),
      (''PP'', \<lambda>s prog. prog\<lparr>PrevID := s\<rparr>)]"

fun parseProgram_fields :: "string list \<Rightarrow> Program \<Rightarrow> fault + Program" where
  "parseProgram_fields [] prog = Inr prog"
| "parseProgram_fields (tv # tvs) prog =
     (let tva = Split tv (CHR '':'') in
      case index tva 0 of Inl f \<Rightarrow> Inl f | Inr tag \<Rightarrow>
      case index tva 1 of Inl f \<Rightarrow> Inl f | Inr val \<Rightarrow>
      (case programParseMap tag of
         Some parseFunc \<Rightarrow> parseProgram_fields tvs (parseFunc val prog)
       | None \<Rightarrow> parseProgram_fields tvs prog))"

definition parseProgram :: "string \<Rightarrow> fault + Program" where
  "parseProgram line =
     (let tvs = Split line TAB in
      case slice tvs 1 (length tvs) of Inl f \<Rightarrow> Inl f | Inr rest \<Rightarrow>
      parseProgram_fields rest \<lparr>Program.ID = [], Program.Name = [], CmdLine = [], PrevID = []\<rparr>)"

subsection \<open>Alignment lines\<close>

record Alignment =
  Qname :: string
  Flag :: "16 word"
  RefName :: string
  Pos :: "32 word"
  Mapq :: "8 word"
  Cigar :: string
  NextRef :: string
  NextPos :: "32 word"
  TemplateLen :: "32 word"  \<comment> \<open>an \<^verbatim>\<open>int32\<close>, read with \<^const>\<open>sint\<close>\<close>
  Seq :: string
  Qual :: string

definition validateAlignment :: "Alignment \<Rightarrow> bool \<times> error option" where
  "validateAlignment a =
     (if \<not> fst (regexp_Match ''*|[!-?A-~]+'' (Qname a))
      then (False, Some (SAMerror ''Invalid qname in alignment''))
      else if Flag a < 0 \<or> Flag a > 0xFFFF
      then (False, Some (SAMerror ''Invalid flag in alignment''))
      else if \<not> fst (regexp_Match ''*|[!-()+-<>-~][!-~]*'' (RefName a))
      then (False, Some (SAMerror ''Invalid reference sequence name in alignment''))
      else if Pos a < 0 \<or> Pos a > 0x1FFFFFFF
      then (False, Some (SAMerror ''Alignment mapping position out of valid range''))
      else if Mapq a < 0 \<or> Mapq a > 0xFF
      then (False, Some (SAMerror ''Alignment mapping quality out of valid range''))
      else if \<not> fst (regexp_Match ''*|([0-9]+[MIDNSHPX=])+'' (Cigar a))
      then (False, Some (SAMerror ''Invalid CIGAR string in alignment''))
      else if \<not> fst (regexp_Match ''*|=|[!-()+-<>-~][!-~]*'' (NextRef a))
      then (False, Some (SAMerror ''Invalid next reference name in alignment''))
      else if NextPos a < 0 \<or> NextPos a > 0x1FFFFFFF
      then (False, Some (SAMerror ''Alignment mapping position out of valid range''))
      else if sint (TemplateLen a) < - 0x1FFFFFFF \<or> sint (TemplateLen a) > 0x1FFFFFFF
      then (False, Some (SAMerror ''Invalid template length''))
      else if \<not> fst (regexp_Match ''*|[A-Za-z=.]+'' (Seq a))
      then (False, Some (SAMerror ''Invalid sequence in alignment''))
      else if \<not> fst (regexp_Match ''*|[!-~]+'' (Qual a))
      then (False, Some (SAMerror ''Invalie Phred quality in alignment''))
      else (True, None))"

definition andThen :: "fault + 'a \<Rightarrow> ('a \<Rightarrow> fault + 'b) \<Rightarrow> fault + 'b" where
  \<comment> \<open>sequencing: a panic in the first step ends the function\<close>
  "andThen m k = (case m of Inl f \<Rightarrow> Inl f | Inr x \<Rightarrow> k x)"

definition parseAlignment :: "string \<Rightarrow> fault + Alignment" where
  \<comment> \<open>the eleven fields are read by position, in the order of the source\<close>
  "parseAlignment line =
     (let fields = Split line TAB in
      andThen (index fields 0) (\<lambda>f0.
      andThen (index fields 1) (\<lambda>f1.
      andThen (index fields 2) (\<lambda>f2.
      andThen (index fields 3) (\<lambda>f3.
      andThen (index fields 4) (\<lambda>f4.
      andThen (index fields 5) (\<lambda>f5.
      andThen (index fields 6) (\<lambda>f6.
      andThen (index fields 7) (\<lambda>f7.
      andThen (index fields 8) (\<lambda>f8.
      andThen (index fields 9) (\<lambda>f9.
      andThen (index fields 10) (\<lambda>f10.
      Inr \<lparr>Qname = f0,
           Flag = word_of_int (fst (Atoi f1)),
           RefName = f2,
           Pos = word_of_int (fst (Atoi f3)),
           Mapq = word_of_int (fst (Atoi f4)),
           Cigar = f5,
           NextRef = f6,
           NextPos = word_of_int (fst (Atoi f7)),
           TemplateLen = word_of_int (fst (Atoi f8)),
           Seq = f9,
           Qual = f10\<rparr>))))))))))))"

subsection \<open>ReadSAMFile\<close>

text \<open>
  The six results of \<^verbatim>\<open>ReadSAMFile\<close>, in the order of the source; \<open>None\<close> is \<^verbatim>\<open>nil\<close>,
  and a list that was created but never filled is \<open>Some []\<close>.
\<close>

type_synonym ret =
  "HeaderLine option \<times> RefSeqDict list option \<times> ReadGroup list option
   \<times> Program list option \<times> Alignment list option \<times> error option"

text \<open>The variables of the scan: the header, the four lists and the three maps of names seen.\<close>

record scan =
  header :: "HeaderLine option"
  rsdl :: "RefSeqDict list"
  rgl :: "ReadGroup list"
  progl :: "Program list"
  al :: "Alignment list"
  rsdNames :: "string \<Rightarrow> bool"
  rgIDs :: "string \<Rightarrow> bool"
  progIDs :: "string \<Rightarrow> bool"

text \<open>What one pass through the body of the loop does: panic, return from the function, or go on.\<close>

datatype exec = Panic fault | Return ret | Next scan

definition lineTag :: "string \<Rightarrow> fault + string" where
  \<comment> \<open>\<^verbatim>\<open>lineTag := s[1:3]\<close>\<close>
  "lineTag s = slice s 1 3"

definition scanLine :: "string \<Rightarrow> scan \<Rightarrow> exec" where
  \<comment> \<open>the body of the \<^verbatim>\<open>for\<close> loop, for the line \<open>s\<close>\<close>
  "scanLine s st =
     (case lineTag s of Inl f \<Rightarrow> Panic f | Inr tag \<Rightarrow>
      if tag = ''HD'' then
        (case parseHeader s of Inl f \<Rightarrow> Panic f | Inr hl \<Rightarrow>
         let (valid, err) = validateHeader hl in
         if \<not> valid then Return (Some hl, None, None, None, None, err)
         else Next (st\<lparr>header := Some hl\<rparr>))
      else if tag = ''SQ'' then
        (case parseRefSeqDict s of Inl f \<Rightarrow> Panic f | Inr rsd \<Rightarrow>
         let (valid, err) = validateRefSeqDict rsd in
         if \<not> valid then Return (header st, None, None, None, None, err)
         else if rsdNames st (RefSeqDict.Name rsd) then
           Return (header st, Some (rsdl st), None, None, None,
                   Some (SAMerror ''Reference sequence name is not unique''))
         else Next (st\<lparr>rsdNames := (rsdNames st)(RefSeqDict.Name rsd := True),
                       rsdl := rsdl st @ [rsd]\<rparr>))
      else if tag = ''RG'' then
        (case parseReadGroup s of Inl f \<Rightarrow> Panic f | Inr rg \<Rightarrow>
         let (valid, err) = validateReadGroup rg in
         if \<not> valid then Return (header st, Some (rsdl st), Some (rgl st), None, None, err)
         else if rgIDs st (ReadGroup.ID rg) then
           Return (header st, Some (rsdl st), Some (rgl st), None, None,
                   Some (SAMerror ''Read group name is not unique''))
         else Next (st\<lparr>rgIDs := (rgIDs st)(ReadGroup.ID rg := True),
                       rgl := rgl st @ [rg]\<rparr>))
      else if tag = ''PG'' then
        (case parseProgram s of Inl f \<Rightarrow> Panic f | Inr prog \<Rightarrow>
         let (valid, err) = validateProgram prog in
         if \<not> valid then
           Return (header st, Some (rsdl st), Some (rgl st), Some (progl st), None, err)
         else if progIDs st (Program.ID prog) then
           Return (header st, Some (rsdl st), Some (rgl st), Some (progl st), None,
                   Some (SAMerror ''Program ID is not unique''))
         else Next (st\<lparr>progIDs := (progIDs st)(Program.ID prog := True),
                       progl := progl st @ [prog]\<rparr>))
      else if tag = ''CO'' then Next st
      else
        (case parseAlignment s of Inl f \<Rightarrow> Panic f | Inr a \<Rightarrow>
         let (valid, err) = validateAlignment a in
         if \<not> valid then
           Return (header st, Some (rsdl st), Some (rgl st), Some (progl st), Some (al st), err)
         else Next (st\<lparr>al := al st @ [a]\<rparr>)))"

fun scanLines :: "string list \<Rightarrow> scan \<Rightarrow> exec" where
  \<comment> \<open>the \<^verbatim>\<open>for\<close> loop over the lines that \<^verbatim>\<open>ReadLine\<close> delivers\<close>
  "scanLines [] st = Next st"
| "scanLines (s # ss) st =
     (case scanLine s st of
        Next st' \<Rightarrow> scanLines ss st'
      | stop \<Rightarrow> stop)"

definition start :: scan where
  \<comment> \<open>the variables as declared before the loop\<close>
  "start =
     \<lparr>header = None, rsdl = [], rgl = [], progl = [], al = [],
      rsdNames = (\<lambda>_. False), rgIDs = (\<lambda>_. False), progIDs = (\<lambda>_. False)\<rparr>"

datatype source = OpenError string | Lines "string list"

definition ReadSAMFile :: "source \<Rightarrow> fault + ret" where
  \<comment> \<open>the argument stands for the file that \<^verbatim>\<open>fileName\<close> designates: either \<^verbatim>\<open>os.Open\<close>
      fails, or the file is read line by line to its end\<close>
  "ReadSAMFile src =
     (case src of
        OpenError e \<Rightarrow> Inr (None, None, None, None, None, Some (PathError e))
      | Lines ss \<Rightarrow>
          (case scanLines ss start of
             Panic f \<Rightarrow> Inl f
           | Return r \<Rightarrow> Inr r
           | Next st \<Rightarrow>
               Inr (header st, Some (rsdl st), Some (rgl st), Some (progl st), Some (al st), None)))"

definition accumulated ::
  "string list \<Rightarrow>
   (HeaderLine option \<times> RefSeqDict list \<times> ReadGroup list \<times> Program list \<times> Alignment list) option" where
  \<comment> \<open>the header and the four lists that the scan holds after the lines \<open>ss\<close>, when it
      has passed all of them without returning and without a panic\<close>
  "accumulated ss =
     (case scanLines ss start of
        Next st \<Rightarrow> Some (header st, rsdl st, rgl st, progl st, al st)
      | _ \<Rightarrow> None)"

text \<open>
  The map \<open>rsdNames\<close> holds exactly the names of the records in \<open>rsdl\<close>, and no two
  records of \<open>rsdl\<close> share a name.
\<close>

definition names_tracked :: "scan \<Rightarrow> bool" where
  "names_tracked st \<longleftrightarrow>
     (\<forall>n. rsdNames st n = (n \<in> RefSeqDict.Name ` set (rsdl st)))
     \<and> distinct (map RefSeqDict.Name (rsdl st))"

text \<open>
  The notions of the claim about numeric fields: a text is a decimal integer when it is
  an optional sign followed by one or more decimal digits; \<open>stored\<close> is what the parsers
  keep of a field before the conversion to the type of the record's field.
\<close>

definition decimal :: "string \<Rightarrow> bool" where
  "decimal x =
     (let ds = (if x \<noteq> [] \<and> (hd x = CHR ''+'' \<or> hd x = CHR ''-'') then tl x else x)
      in ds \<noteq> [] \<and> list_all isdigit ds)"

definition decimal_value :: "string \<Rightarrow> int" where
  "decimal_value x =
     (if x \<noteq> [] \<and> hd x = CHR ''-'' then - digits_val (tl x)
      else if x \<noteq> [] \<and> hd x = CHR ''+'' then digits_val (tl x)
      else digits_val x)"

definition stored :: "string \<Rightarrow> int" where
  "stored x =
     (if decimal x then max (- (2 ^ 63)) (min (2 ^ 63 - 1) (decimal_value x)) else 0)"

section \<open>Properties\<close>

lemmas goSAM_defs =
  regexp_Match_def close_group_def parseBracket_def repeat_def skipLazy_def inRanges_def
  DecodeRune_def acceptRange_def RuneError_def index_def slice_def Atoi_def isdigit_def
  digits_val_def ispunct_def validateHeader_def hlParseMap_def parseHeader_def
  validateRefSeqDict_def parseRefSeqDict_def validPlatforms_def validateReadGroup_def
  rgParseMap_def parseReadGroup_def validateProgram_def programParseMap_def parseProgram_def
  validateAlignment_def andThen_def parseAlignment_def lineTag_def scanLine_def start_def
  ReadSAMFile_def accumulated_def Let_def

subsection \<open>Patterns that do not compile\<close>

text \<open>
  A pattern that begins with \<^verbatim>\<open>*\<close> has nothing to repeat: it does not compile, and
  \<^verbatim>\<open>regexp.Match\<close> answers false for every subject.
\<close>

lemma validateAlignment_never_valid:
  "validateAlignment a = (False, Some (SAMerror ''Invalid qname in alignment''))"
  by (simp add: validateAlignment_def regexp_Match_def)

lemma validateReadGroup_FlowOrder:
  "FlowOrder rg \<noteq> [] \<Longrightarrow>
   validateReadGroup rg = (False, Some (SAMerror ''Invalid flow order in read group''))"
  by (simp add: validateReadGroup_def regexp_Match_def)

lemma validateReadGroup_iff:
  "fst (validateReadGroup rg) \<longleftrightarrow>
     FlowOrder rg = [] \<and> (Platform rg = [] \<or> validPlatforms (Platform rg))"
  by (simp add: validateReadGroup_def regexp_Match_def)

lemma validateRefSeqDict_range:
  assumes "fst (regexp_Match ''[!-)+-<>-~][!-~]*'' (RefSeqDict.Name d))"
      and "\<not> (1 \<le> Length d \<and> Length d \<le> 0x1FFFFFFF)"
  shows "validateRefSeqDict d = (False, None)"
  using assms by (simp add: validateRefSeqDict_def)

subsection \<open>Faults of the parsers\<close>

text \<open>
  Where the parsers index a slice without looking at its length: an alignment line of
  fewer than eleven fields, a line of fewer than three bytes, a field without a colon.
  A field with a colon and an unknown key is passed over.
\<close>

lemma andThen_index:
  "(\<And>x. k x = Inl IndexOutOfRange) \<Longrightarrow> andThen (index xs i) k = Inl IndexOutOfRange"
  by (simp add: andThen_def index_def)

lemma parseAlignment_short:
  assumes "length (Split line TAB) < 11"
  shows "parseAlignment line = Inl IndexOutOfRange"
proof -
  have last: "andThen (index (Split line TAB) 10) k = Inl IndexOutOfRange" for k :: "string \<Rightarrow> fault + Alignment"
    using assms by (simp add: index_def andThen_def)
  show ?thesis
    unfolding parseAlignment_def Let_def
    by (rule andThen_index, rule andThen_index, rule andThen_index, rule andThen_index,
        rule andThen_index, rule andThen_index, rule andThen_index, rule andThen_index,
        rule andThen_index, rule andThen_index, rule last)
qed

lemma lineTag_short:
  "length s < 3 \<Longrightarrow> scanLine s st = Panic SliceBoundsOutOfRange"
  by (simp add: scanLine_def lineTag_def slice_def)

lemma Split_no_sep: "sep \<notin> set s \<Longrightarrow> Split s sep = [s]"
  by (induction s) auto

lemma parseHeader_fields_no_colon:
  "CHR '':'' \<notin> set tv \<Longrightarrow> parseHeader_fields (tv # tvs) hl = Inl IndexOutOfRange"
  by (simp add: Split_no_sep index_def)

lemma parseReadGroup_fields_no_colon:
  "CHR '':'' \<notin> set tv \<Longrightarrow> parseReadGroup_fields (tv # tvs) rg = Inl IndexOutOfRange"
  by (simp add: Split_no_sep index_def)

lemma parseProgram_fields_no_colon:
  "CHR '':'' \<notin> set tv \<Longrightarrow> parseProgram_fields (tv # tvs) prog = Inl IndexOutOfRange"
  by (simp add: Split_no_sep index_def)

lemma parseHeader_fields_unknown_key:
  assumes "Split tv (CHR '':'') = tag # val # vs" and "hlParseMap tag = None"
  shows "parseHeader_fields (tv # tvs) hl = parseHeader_fields tvs hl"
  using assms by (simp add: index_def)

subsection \<open>The scan on concrete files\<close>

text \<open>
  C2. The end-to-end scenario: a header line, one reference sequence and one alignment
  line that is well-formed for the format. The header and the reference sequence are
  returned as the scenario says, but the alignment is refused: the scan returns the
  error ``Invalid qname in alignment'' and an alignment list without the record.
\<close>

theorem scenario_alignment_refused:
  "ReadSAMFile (Lines
     [''@HD'' @ [TAB] @ ''VN:1.0'' @ [TAB] @ ''SO:coordinate'',
      ''@SQ'' @ [TAB] @ ''SN:chr1'' @ [TAB] @ ''LN:248956422'',
      ''r001'' @ [TAB] @ ''99'' @ [TAB] @ ''chr1'' @ [TAB] @ ''7'' @ [TAB] @ ''30''
        @ [TAB] @ ''8M'' @ [TAB] @ ''='' @ [TAB] @ ''37'' @ [TAB] @ ''39''
        @ [TAB] @ ''TTAGATAA'' @ [TAB] @ ''*''])
   = Inr (Some \<lparr>Version = ''1.0'', SortOrder = ''coordinate''\<rparr>,
          Some [\<lparr>RefSeqDict.Name = ''chr1'', Length = 248956422, AssemblyID = [],
                 MD5 = [], Species = [], URI = []\<rparr>],
          Some [], Some [], Some [],
          Some (SAMerror ''Invalid qname in alignment''))"
  by (simp add: goSAM_defs)

text \<open>
  C3. An alignment line of five tab-separated fields: the scan does not return an
  error value, it panics with an index out of range.
\<close>

theorem short_alignment_panics:
  "ReadSAMFile (Lines
     [''r001'' @ [TAB] @ ''99'' @ [TAB] @ ''chr1'' @ [TAB] @ ''7'' @ [TAB] @ ''30''])
   = Inl IndexOutOfRange"
  by (simp add: goSAM_defs)

text \<open>
  C4. The version ``12x3'' does not match the pattern with a literal dot, yet
  \<open>validateHeader\<close> accepts it, and so does the scan.
\<close>

theorem version_12x3_accepted:
  "validateHeader \<lparr>Version = ''12x3'', SortOrder = []\<rparr> = (True, None)
   \<and> regexp_Match (''^[0-9]+'' @ [CHR 0x5C] @ ''.[0-9]+$'') ''12x3'' = (False, None)
   \<and> ReadSAMFile (Lines [''@HD'' @ [TAB] @ ''VN:12x3''])
       = Inr (Some \<lparr>Version = ''12x3'', SortOrder = []\<rparr>, Some [], Some [], Some [], Some [], None)"
  by (simp add: goSAM_defs)

text \<open>
  C5. A reference sequence of length 0, and one of length 2^29: the scan stops and
  accumulates nothing, but the error it returns is unset.
\<close>

theorem zero_length_no_error:
  "ReadSAMFile (Lines [''@SQ'' @ [TAB] @ ''SN:chr1'' @ [TAB] @ ''LN:0''])
   = Inr (None, None, None, None, None, None)
   \<and> ReadSAMFile (Lines [''@SQ'' @ [TAB] @ ''SN:chr1'' @ [TAB] @ ''LN:536870912''])
   = Inr (None, None, None, None, None, None)"
  by (simp add: goSAM_defs)

text \<open>
  C7. A read group with flow order ``ACGT'' and platform ``ILLUMINA'': the flow order
  matches the documented pattern, but \<open>validateReadGroup\<close> rejects the record.
\<close>

theorem flow_order_rejected:
  "validateReadGroup
     \<lparr>ReadGroup.ID = ''g1'', SeqCenter = [], Description = [], Date = [], FlowOrder = ''ACGT'',
      KeySeq = [], Lib = [], Programs = [], PMIS = [], Platform = ''ILLUMINA'', Unit = [],
      Sample = []\<rparr>
   = (False, Some (SAMerror ''Invalid flow order in read group''))
   \<and> regexp_Match ([CHR 0x5C] @ ''*|[ACMGRSVTWYHKDBN]+'') ''ACGT'' = (True, None)"
  by (simp add: goSAM_defs)

text \<open>
  C8. A field without a colon after the tag of a header, read group or program line:
  the parser panics with an index out of range.
\<close>

theorem field_without_colon_panics:
  "parseHeader (''@HD'' @ [TAB] @ ''VN:1.0'' @ [TAB] @ ''foo'') = Inl IndexOutOfRange
   \<and> parseReadGroup (''@RG'' @ [TAB] @ ''ID:g1'' @ [TAB] @ ''foo'') = Inl IndexOutOfRange
   \<and> parseProgram (''@PG'' @ [TAB] @ ''ID:bwa'' @ [TAB] @ ''foo'') = Inl IndexOutOfRange
   \<and> parseRefSeqDict (''@SQ'' @ [TAB] @ ''SN'') = Inl IndexOutOfRange
   \<and> ReadSAMFile (Lines [''@HD'' @ [TAB] @ ''VN:1.0'' @ [TAB] @ ''foo'']) = Inl IndexOutOfRange"
  by (simp add: goSAM_defs)

text \<open>
  C9. An empty line, and a line of two characters: reading the tag panics with slice
  bounds out of range. And a line that does not begin with the marker but has \<^verbatim>\<open>HD\<close> as
  its second and third characters is read as a header line, not as an alignment.
\<close>

theorem short_line_panics:
  "ReadSAMFile (Lines [[]]) = Inl SliceBoundsOutOfRange
   \<and> ReadSAMFile (Lines [''@C'']) = Inl SliceBoundsOutOfRange
   \<and> ReadSAMFile (Lines [''xHD'' @ [TAB] @ ''VN:1.0''])
       = Inr (Some \<lparr>Version = ''1.0'', SortOrder = []\<rparr>, Some [], Some [], Some [], Some [], None)"
  by (simp add: goSAM_defs)


subsection \<open>The loop, line by line\<close>

lemma scanLines_append:
  "scanLines (xs @ ys) st =
     (case scanLines xs st of Next st' \<Rightarrow> scanLines ys st' | stop \<Rightarrow> stop)"
  by (induction xs arbitrary: st) (auto split: exec.splits)

lemma scanLine_SQ:
  assumes "lineTag s = Inr ''SQ''" and "parseRefSeqDict s = Inr d"
  shows "scanLine s st =
     (if \<not> fst (validateRefSeqDict d)
      then Return (header st, None, None, None, None, snd (validateRefSeqDict d))
      else if rsdNames st (RefSeqDict.Name d)
      then Return (header st, Some (rsdl st), None, None, None,
                   Some (SAMerror ''Reference sequence name is not unique''))
      else Next (st\<lparr>rsdNames := (rsdNames st)(RefSeqDict.Name d := True), rsdl := rsdl st @ [d]\<rparr>))"
  using assms by (simp add: scanLine_def split: prod.splits)

lemma names_tracked_start: "names_tracked start"
  by (simp add: names_tracked_def start_def)

lemma scanLine_rsdl:
  assumes "scanLine s st = Next st'"
  shows "(rsdl st' = rsdl st \<and> rsdNames st' = rsdNames st)
       \<or> (\<exists>d. lineTag s = Inr ''SQ'' \<and> parseRefSeqDict s = Inr d \<and> \<not> rsdNames st (RefSeqDict.Name d)
             \<and> rsdl st' = rsdl st @ [d]
             \<and> rsdNames st' = (rsdNames st)(RefSeqDict.Name d := True))"
  using assms
  by (auto simp: scanLine_def split: sum.splits if_splits prod.splits)

lemma scanLine_names_tracked:
  assumes "scanLine s st = Next st'" and "names_tracked st"
  shows "names_tracked st'"
  using scanLine_rsdl[OF assms(1)] assms(2)
  by (auto simp: names_tracked_def)

lemma scanLine_rsdl_grows:
  assumes "scanLine s st = Next st'"
  shows "set (rsdl st) \<subseteq> set (rsdl st')"
  using scanLine_rsdl[OF assms] by auto

lemma scanLine_SQ_kept:
  assumes "scanLine s st = Next st'" and "lineTag s = Inr ''SQ''" and "parseRefSeqDict s = Inr d"
  shows "d \<in> set (rsdl st')"
  using assms by (auto simp: scanLine_SQ split: if_splits)

lemma scanLines_names_tracked:
  "scanLines ss st = Next st' \<Longrightarrow> names_tracked st \<Longrightarrow> names_tracked st'"
proof (induction ss arbitrary: st)
  case Nil
  then show ?case by simp
next
  case (Cons s ss)
  then obtain st1 where step: "scanLine s st = Next st1" and rest: "scanLines ss st1 = Next st'"
    by (auto split: exec.splits)
  from Cons.IH[OF rest] scanLine_names_tracked[OF step Cons.prems(2)] show ?case .
qed

lemma scanLines_rsdl_grows:
  "scanLines ss st = Next st' \<Longrightarrow> set (rsdl st) \<subseteq> set (rsdl st')"
proof (induction ss arbitrary: st)
  case Nil
  then show ?case by simp
next
  case (Cons s ss)
  then obtain st1 where step: "scanLine s st = Next st1" and rest: "scanLines ss st1 = Next st'"
    by (auto split: exec.splits)
  from Cons.IH[OF rest] scanLine_rsdl_grows[OF step] show ?case by blast
qed

lemma scanLines_SQ_kept:
  "scanLines ss st = Next st' \<Longrightarrow> s \<in> set ss \<Longrightarrow> lineTag s = Inr ''SQ''
   \<Longrightarrow> parseRefSeqDict s = Inr d \<Longrightarrow> d \<in> set (rsdl st')"
proof (induction ss arbitrary: st)
  case Nil
  then show ?case by simp
next
  case (Cons x ss)
  then obtain st1 where step: "scanLine x st = Next st1" and rest: "scanLines ss st1 = Next st'"
    by (auto split: exec.splits)
  show ?case
  proof (cases "s = x")
    case True
    with scanLine_SQ_kept[OF step] Cons.prems have "d \<in> set (rsdl st1)" by simp
    with scanLines_rsdl_grows[OF rest] show ?thesis by blast
  next
    case False
    with Cons.prems have "s \<in> set ss" by simp
    from Cons.IH[OF rest this Cons.prems(3,4)] show ?thesis .
  qed
qed

lemma accumulated_Some:
  "accumulated ss = Some (h0, sqs, rgs, pgs, als) \<Longrightarrow>
   \<exists>st. scanLines ss start = Next st \<and> header st = h0 \<and> rsdl st = sqs \<and> rgl st = rgs
        \<and> progl st = pgs \<and> al st = als"
  by (auto simp: accumulated_def split: exec.splits)

lemma filter_distinct_key:
  "distinct (map f xs) \<Longrightarrow> x \<in> set xs \<Longrightarrow> filter (\<lambda>y. f y = f x) xs = [x]"
proof (induction xs)
  case Nil
  then show ?case by simp
next
  case (Cons a xs)
  show ?case
  proof (cases "a = x")
    case True
    with Cons.prems have "\<forall>y\<in>set xs. f y \<noteq> f x" by (auto simp: image_iff)
    then have "filter (\<lambda>y. f y = f x) xs = []" by (simp add: filter_empty_conv)
    with True show ?thesis by simp
  next
    case False
    with Cons.prems have "x \<in> set xs" and "f a \<noteq> f x" by auto
    with Cons show ?thesis by simp
  qed
qed

text \<open>
  C6. Two reference sequence lines with the same name, the scan passing every line
  before the second and the second passing validation: the scan stops at the second
  with the error ``Reference sequence name is not unique''; the list it returns is the
  one built before that line, it holds the record of the first line, and that record is
  its only one of that name.
\<close>

theorem duplicate_reference_name:
  assumes "accumulated pre = Some (h0, sqs, rgs, pgs, als)"
      and "l1 \<in> set pre" and "lineTag l1 = Inr ''SQ''" and "parseRefSeqDict l1 = Inr d1"
      and "lineTag l2 = Inr ''SQ''" and "parseRefSeqDict l2 = Inr d2"
      and "fst (validateRefSeqDict d2)"
      and "RefSeqDict.Name d1 = RefSeqDict.Name d2"
  shows "ReadSAMFile (Lines (pre @ l2 # post))
           = Inr (h0, Some sqs, None, None, None,
                  Some (SAMerror ''Reference sequence name is not unique''))
         \<and> d1 \<in> set sqs
         \<and> filter (\<lambda>d. RefSeqDict.Name d = RefSeqDict.Name d2) sqs = [d1]"
proof -
  from accumulated_Some[OF assms(1)] obtain st where
    run: "scanLines pre start = Next st" and st: "header st = h0" "rsdl st = sqs"
    by blast
  have inv: "names_tracked st"
    using scanLines_names_tracked[OF run names_tracked_start] .
  have first: "d1 \<in> set sqs"
    using scanLines_SQ_kept[OF run assms(2,3,4)] st by simp
  then have "RefSeqDict.Name d2 \<in> RefSeqDict.Name ` set sqs"
    using assms(8) by (metis imageI)
  then have seen: "rsdNames st (RefSeqDict.Name d2)"
    using inv st by (simp add: names_tracked_def)
  have "scanLine l2 st = Return (h0, Some sqs, None, None, None,
          Some (SAMerror ''Reference sequence name is not unique''))"
    using assms(7) seen st by (simp add: scanLine_SQ[OF assms(5,6)])
  then have "scanLines (pre @ l2 # post) start = Return (h0, Some sqs, None, None, None,
          Some (SAMerror ''Reference sequence name is not unique''))"
    using run by (simp add: scanLines_append)
  then have ret: "ReadSAMFile (Lines (pre @ l2 # post))
           = Inr (h0, Some sqs, None, None, None,
                  Some (SAMerror ''Reference sequence name is not unique''))"
    by (simp add: ReadSAMFile_def)
  have "distinct (map RefSeqDict.Name sqs)"
    using inv st by (simp add: names_tracked_def)
  from filter_distinct_key[OF this first] assms(8)
  have "filter (\<lambda>d. RefSeqDict.Name d = RefSeqDict.Name d2) sqs = [d1]" by simp
  with ret first show ?thesis by simp
qed

theorem duplicate_reference_name_witness:
  "ReadSAMFile (Lines
     [''@HD'' @ [TAB] @ ''VN:1.4'',
      ''@SQ'' @ [TAB] @ ''SN:chr1'' @ [TAB] @ ''LN:100'',
      ''@SQ'' @ [TAB] @ ''SN:chr2'' @ [TAB] @ ''LN:50'',
      ''@SQ'' @ [TAB] @ ''SN:chr1'' @ [TAB] @ ''LN:200'',
      ''@SQ'' @ [TAB] @ ''SN:chr3'' @ [TAB] @ ''LN:7''])
   = Inr (Some \<lparr>Version = ''1.4'', SortOrder = []\<rparr>,
          Some [\<lparr>RefSeqDict.Name = ''chr1'', Length = 100, AssemblyID = [], MD5 = [],
                  Species = [], URI = []\<rparr>,
                \<lparr>RefSeqDict.Name = ''chr2'', Length = 50, AssemblyID = [], MD5 = [],
                  Species = [], URI = []\<rparr>],
          None, None, None, Some (SAMerror ''Reference sequence name is not unique''))"
proof -
  let ?l0 = "''@HD'' @ [TAB] @ ''VN:1.4''"
  let ?l1 = "''@SQ'' @ [TAB] @ ''SN:chr1'' @ [TAB] @ ''LN:100''"
  let ?l2 = "''@SQ'' @ [TAB] @ ''SN:chr2'' @ [TAB] @ ''LN:50''"
  let ?l3 = "''@SQ'' @ [TAB] @ ''SN:chr1'' @ [TAB] @ ''LN:200''"
  let ?l4 = "''@SQ'' @ [TAB] @ ''SN:chr3'' @ [TAB] @ ''LN:7''"
  let ?d1 = "\<lparr>RefSeqDict.Name = ''chr1'', Length = 100, AssemblyID = [], MD5 = [],
              Species = [], URI = []\<rparr>"
  let ?d2 = "\<lparr>RefSeqDict.Name = ''chr2'', Length = 50, AssemblyID = [], MD5 = [],
              Species = [], URI = []\<rparr>"
  let ?d3 = "\<lparr>RefSeqDict.Name = ''chr1'', Length = 200, AssemblyID = [], MD5 = [],
              Species = [], URI = []\<rparr>"
  have acc: "accumulated [?l0, ?l1, ?l2]
               = Some (Some \<lparr>Version = ''1.4'', SortOrder = []\<rparr>, [?d1, ?d2], [], [], [])"
    by (simp add: goSAM_defs)
  have mem: "?l1 \<in> set [?l0, ?l1, ?l2]" by simp
  have t1: "lineTag ?l1 = Inr ''SQ''" by (simp add: goSAM_defs)
  have p1: "parseRefSeqDict ?l1 = Inr ?d1" by (simp add: goSAM_defs)
  have t3: "lineTag ?l3 = Inr ''SQ''" by (simp add: goSAM_defs)
  have p3: "parseRefSeqDict ?l3 = Inr ?d3" by (simp add: goSAM_defs)
  have v3: "fst (validateRefSeqDict ?d3)" by (simp add: goSAM_defs)
  have same: "RefSeqDict.Name ?d1 = RefSeqDict.Name ?d3" by simp
  from duplicate_reference_name[OF acc mem t1 p1 t3 p3 v3 same, of "[?l4]"]
  show ?thesis by simp
qed


subsection \<open>What an aborted scan returns\<close>

lemma validateRefSeqDict_err:
  "validateRefSeqDict d = (v, e) \<Longrightarrow> e \<noteq> Some (SAMerror ''Reference sequence name is not unique'')"
  by (auto simp: validateRefSeqDict_def Let_def split: if_splits)

lemma scanLine_Return_cases:
  assumes "scanLine s st = Return (h, sq, rg, pg, a, err)" and "lineTag s = Inr t"
  shows "t = ''HD'' \<and> (\<exists>hl. parseHeader s = Inr hl \<and> h = Some hl)
           \<and> sq = None \<and> rg = None \<and> pg = None \<and> a = None
       \<or> t = ''SQ'' \<and> h = header st \<and> sq = None \<and> rg = None \<and> pg = None \<and> a = None
           \<and> err \<noteq> Some (SAMerror ''Reference sequence name is not unique'')
       \<or> t = ''SQ'' \<and> h = header st \<and> sq = Some (rsdl st) \<and> rg = None \<and> pg = None \<and> a = None
       \<or> t = ''RG'' \<and> h = header st \<and> sq = Some (rsdl st) \<and> rg = Some (rgl st)
           \<and> pg = None \<and> a = None
       \<or> t = ''PG'' \<and> h = header st \<and> sq = Some (rsdl st) \<and> rg = Some (rgl st)
           \<and> pg = Some (progl st) \<and> a = None
       \<or> t \<noteq> ''HD'' \<and> t \<noteq> ''SQ'' \<and> t \<noteq> ''RG'' \<and> t \<noteq> ''PG''
           \<and> h = header st \<and> sq = Some (rsdl st) \<and> rg = Some (rgl st)
           \<and> pg = Some (progl st) \<and> a = Some (al st)"
proof -
  consider "t = ''HD''" | "t = ''SQ''" | "t = ''RG''" | "t = ''PG''" | "t = ''CO''"
    | "t \<noteq> ''HD'' \<and> t \<noteq> ''SQ'' \<and> t \<noteq> ''RG'' \<and> t \<noteq> ''PG'' \<and> t \<noteq> ''CO''"
    by blast
  then show ?thesis
  proof cases
    case 1
    with assms show ?thesis
      by (auto simp: scanLine_def split: sum.splits prod.splits if_splits)
  next
    case 2
    with assms show ?thesis
      by (auto simp: scanLine_def dest: validateRefSeqDict_err
          split: sum.splits prod.splits if_splits)
  next
    case 3
    with assms show ?thesis
      by (auto simp: scanLine_def split: sum.splits prod.splits if_splits)
  next
    case 4
    with assms show ?thesis
      by (auto simp: scanLine_def split: sum.splits prod.splits if_splits)
  next
    case 5
    with assms show ?thesis
      by (simp add: scanLine_def)
  next
    case 6
    with assms show ?thesis
      by (auto simp: scanLine_def split: sum.splits prod.splits if_splits)
  qed
qed

text \<open>
  C1, as the code has it. The scan passes the lines \<open>pre\<close>, stops at the line \<open>s\<close> with
  tag \<open>t\<close> and returns. Each of the four lists it returns is either unset or exactly the
  list built from \<open>pre\<close>, and which of them are unset follows from the tag alone, in the
  order header, reference sequences, read groups, programs, alignments: the lists of the
  types after that of \<open>s\<close> are unset (also when they were filled), the lists of the types
  before it are returned as built, and the list of the type of \<open>s\<close> is returned as built
  for a read group, a program, an alignment and a duplicate reference sequence. The
  header is the one held before \<open>s\<close>, or the header just parsed when \<open>s\<close> is a header
  line.
\<close>

theorem abort_return_policy:
  assumes "accumulated pre = Some (h0, sqs, rgs, pgs, als)"
      and "accumulated (pre @ [s]) = None"
      and "ReadSAMFile (Lines (pre @ s # post)) = Inr (h, sq, rg, pg, a, err)"
      and "lineTag s = Inr t"
  shows "(sq = None \<or> sq = Some sqs) \<and> (rg = None \<or> rg = Some rgs)
       \<and> (pg = None \<or> pg = Some pgs) \<and> (a = None \<or> a = Some als)
       \<and> (rg = None) = (t = ''HD'' \<or> t = ''SQ'')
       \<and> (pg = None) = (t = ''HD'' \<or> t = ''SQ'' \<or> t = ''RG'')
       \<and> (a = None) = (t = ''HD'' \<or> t = ''SQ'' \<or> t = ''RG'' \<or> t = ''PG'')
       \<and> (t = ''HD'' \<longrightarrow> sq = None \<and> (\<exists>hl. parseHeader s = Inr hl \<and> h = Some hl))
       \<and> (t \<noteq> ''HD'' \<longrightarrow> h = h0)
       \<and> (t \<noteq> ''HD'' \<and> t \<noteq> ''SQ'' \<longrightarrow> sq = Some sqs)
       \<and> (t = ''SQ'' \<and> err = Some (SAMerror ''Reference sequence name is not unique'')
            \<longrightarrow> sq = Some sqs)"
proof -
  from accumulated_Some[OF assms(1)] obtain st where
    run: "scanLines pre start = Next st"
    and st: "header st = h0" "rsdl st = sqs" "rgl st = rgs" "progl st = pgs" "al st = als"
    by blast
  have stop: "\<forall>st'. scanLine s st \<noteq> Next st'"
    using assms(2) run by (auto simp: accumulated_def scanLines_append split: exec.splits)
  then have "scanLines (pre @ s # post) start = scanLine s st"
    using run by (cases "scanLine s st") (simp_all add: scanLines_append)
  with assms(3) stop have step: "scanLine s st = Return (h, sq, rg, pg, a, err)"
    by (cases "scanLine s st") (simp_all add: ReadSAMFile_def)
  from scanLine_Return_cases[OF step assms(4)] st show ?thesis
    by (elim disjE) simp_all
qed

theorem abort_return_policy_witness:
  "ReadSAMFile (Lines ([''@PG'' @ [TAB] @ ''ID:bwa''] @ (''@RG'' @ [TAB] @ ''ID:g1'' @ [TAB] @ ''PL:XYZ'') # []))
     = Inr (None, Some [], Some [], None, None, Some (SAMerror ''Invalid platform in read group''))
   \<and> ReadSAMFile (Lines ([''@SQ'' @ [TAB] @ ''SN:chr1'' @ [TAB] @ ''LN:100''] @ (''@HD'' @ [TAB] @ ''VN:abc'') # []))
     = Inr (Some \<lparr>Version = ''abc'', SortOrder = []\<rparr>, None, None, None, None,
            Some (SAMerror ''Invalid version in SAM Header''))
   \<and> ReadSAMFile (Lines ([''@SQ'' @ [TAB] @ ''SN:chr1'' @ [TAB] @ ''LN:100'']
         @ (''@SQ'' @ [TAB] @ ''SN:chr1'' @ [TAB] @ ''LN:9'') # []))
     = Inr (None,
            Some [\<lparr>RefSeqDict.Name = ''chr1'', Length = 100, AssemblyID = [], MD5 = [],
                    Species = [], URI = []\<rparr>],
            None, None, None, Some (SAMerror ''Reference sequence name is not unique''))"
proof -
  let ?pg = "''@PG'' @ [TAB] @ ''ID:bwa''"
  let ?rg = "''@RG'' @ [TAB] @ ''ID:g1'' @ [TAB] @ ''PL:XYZ''"
  let ?sq = "''@SQ'' @ [TAB] @ ''SN:chr1'' @ [TAB] @ ''LN:100''"
  let ?hd = "''@HD'' @ [TAB] @ ''VN:abc''"
  let ?dup = "''@SQ'' @ [TAB] @ ''SN:chr1'' @ [TAB] @ ''LN:9''"
  let ?chr1 = "\<lparr>RefSeqDict.Name = ''chr1'', Length = 100, AssemblyID = [], MD5 = [],
                Species = [], URI = []\<rparr>"
  have acc1: "accumulated [?pg]
     = Some (None, [], [], [\<lparr>Program.ID = ''bwa'', Program.Name = [], CmdLine = [], PrevID = []\<rparr>], [])"
    by (simp add: goSAM_defs)
  have stop1: "accumulated ([?pg] @ [?rg]) = None"
    by (simp add: goSAM_defs)
  have ret1: "ReadSAMFile (Lines ([?pg] @ ?rg # []))
     = Inr (None, Some [], Some [], None, None, Some (SAMerror ''Invalid platform in read group''))"
    by (simp add: goSAM_defs)
  have tag1: "lineTag ?rg = Inr ''RG''"
    by (simp add: goSAM_defs)
  have acc2: "accumulated [?sq] = Some (None, [?chr1], [], [], [])"
    by (simp add: goSAM_defs)
  have stop2: "accumulated ([?sq] @ [?hd]) = None"
    by (simp add: goSAM_defs)
  have ret2: "ReadSAMFile (Lines ([?sq] @ ?hd # []))
     = Inr (Some \<lparr>Version = ''abc'', SortOrder = []\<rparr>, None, None, None, None,
            Some (SAMerror ''Invalid version in SAM Header''))"
    by (simp add: goSAM_defs)
  have tag2: "lineTag ?hd = Inr ''HD''"
    by (simp add: goSAM_defs)
  have stop3: "accumulated ([?sq] @ [?dup]) = None"
    by (simp add: goSAM_defs)
  have ret3: "ReadSAMFile (Lines ([?sq] @ ?dup # []))
     = Inr (None, Some [?chr1], None, None, None,
            Some (SAMerror ''Reference sequence name is not unique''))"
    by (simp add: goSAM_defs)
  have tag3: "lineTag ?dup = Inr ''SQ''"
    by (simp add: goSAM_defs)
  from abort_return_policy[OF acc1 stop1 ret1 tag1] abort_return_policy[OF acc2 stop2 ret2 tag2]
    abort_return_policy[OF acc2 stop3 ret3 tag3] ret1 ret2 ret3
  show ?thesis by simp
qed

text \<open>
  C1, as stated, fails: a program line followed by a read group line with an unknown
  platform. The program list built before the failing line holds one record; the scan
  returns it unset.
\<close>

theorem abort_drops_program_list:
  "accumulated [''@PG'' @ [TAB] @ ''ID:bwa'']
     = Some (None, [], [], [\<lparr>Program.ID = ''bwa'', Program.Name = [], CmdLine = [], PrevID = []\<rparr>], [])
   \<and> ReadSAMFile (Lines [''@PG'' @ [TAB] @ ''ID:bwa'', ''@RG'' @ [TAB] @ ''ID:g1'' @ [TAB] @ ''PL:XYZ''])
     = Inr (None, Some [], Some [], None, None, Some (SAMerror ''Invalid platform in read group''))"
  by (simp add: goSAM_defs)

subsection \<open>Numeric fields\<close>

lemma digits_val_nonneg:
  "(0::int) \<le> n \<Longrightarrow> list_all isdigit ds \<Longrightarrow>
   0 \<le> foldl (\<lambda>n c. n * 10 + (of_char c - 48)) n ds"
proof (induction ds arbitrary: n)
  case Nil
  then show ?case by simp
next
  case (Cons c ds)
  from Cons.prems have "(0::int) \<le> n * 10 + (of_char c - 48)"
    by (simp add: isdigit_def)
  with Cons show ?case by simp
qed

lemma Atoi_stored: "fst (Atoi x) = stored x"
proof (cases "decimal x")
  case False
  then show ?thesis
    by (auto simp: Atoi_def stored_def decimal_def Let_def)
next
  case True
  then have ds: "list_all isdigit (if x \<noteq> [] \<and> (hd x = CHR ''+'' \<or> hd x = CHR ''-'') then tl x else x)"
    by (simp add: decimal_def Let_def)
  have nonneg: "0 \<le> digits_val (if x \<noteq> [] \<and> (hd x = CHR ''+'' \<or> hd x = CHR ''-'') then tl x else x)"
    unfolding digits_val_def using digits_val_nonneg[OF _ ds] by simp
  from True nonneg show ?thesis
    by (auto simp: Atoi_def stored_def decimal_def decimal_value_def Let_def split: if_splits)
qed

text \<open>
  C10, as the code has it. For an alignment line of at least eleven fields, and for an
  \<^verbatim>\<open>LN\<close> field of a reference sequence line: the parser keeps 0 when the text is not a
  decimal integer; otherwise it keeps the value, replaced by the nearest of \<open>- 2^63\<close> and
  \<open>2^63 - 1\<close> when it lies outside the range of \<^verbatim>\<open>int\<close>, and the conversion to the
  field's type truncates that modulo \<open>2^w\<close>.
\<close>

theorem numeric_fields_stored:
  assumes "Split line TAB = f0 # f1 # f2 # f3 # f4 # f5 # f6 # f7 # f8 # f9 # f10 # fs"
      and "Split tv (CHR '':'') = ''LN'' # x # vs"
  shows "(\<exists>a. parseAlignment line = Inr a
            \<and> uint (Flag a) = stored f1 mod 2 ^ 16
            \<and> uint (Pos a) = stored f3 mod 2 ^ 32
            \<and> uint (Mapq a) = stored f4 mod 2 ^ 8
            \<and> uint (NextPos a) = stored f7 mod 2 ^ 32
            \<and> uint (TemplateLen a) = stored f8 mod 2 ^ 32)
       \<and> (\<exists>w. parseRefSeqDict_fields (tv # tvs) rsd
                  = parseRefSeqDict_fields tvs (rsd\<lparr>Length := w\<rparr>)
              \<and> uint w = stored x mod 2 ^ 32)"
proof -
  have "parseAlignment line =
      Inr \<lparr>Qname = f0, Flag = word_of_int (stored f1), RefName = f2,
           Pos = word_of_int (stored f3), Mapq = word_of_int (stored f4), Cigar = f5,
           NextRef = f6, NextPos = word_of_int (stored f7),
           TemplateLen = word_of_int (stored f8), Seq = f9, Qual = f10\<rparr>"
    using assms(1) by (simp add: parseAlignment_def index_def andThen_def Atoi_stored)
  then have alignment: "\<exists>a. parseAlignment line = Inr a
            \<and> uint (Flag a) = stored f1 mod 2 ^ 16
            \<and> uint (Pos a) = stored f3 mod 2 ^ 32
            \<and> uint (Mapq a) = stored f4 mod 2 ^ 8
            \<and> uint (NextPos a) = stored f7 mod 2 ^ 32
            \<and> uint (TemplateLen a) = stored f8 mod 2 ^ 32"
    by (simp add: uint_word_of_int)
  have "parseRefSeqDict_fields (tv # tvs) rsd
          = parseRefSeqDict_fields tvs (rsd\<lparr>Length := word_of_int (stored x)\<rparr>)"
    using assms(2) by (simp add: index_def Atoi_stored)
  moreover have "uint (word_of_int (stored x) :: 32 word) = stored x mod 2 ^ 32"
    by (simp add: uint_word_of_int)
  ultimately have "\<exists>w. parseRefSeqDict_fields (tv # tvs) rsd
                  = parseRefSeqDict_fields tvs (rsd\<lparr>Length := w\<rparr>)
              \<and> uint w = stored x mod 2 ^ 32"
    by blast
  with alignment show ?thesis by blast
qed

theorem numeric_fields_stored_witness:
  "parseAlignment (''r001'' @ [TAB] @ ''x9'' @ [TAB] @ ''chr1'' @ [TAB] @ ''4294967301'' @ [TAB] @ ''300''
        @ [TAB] @ ''8M'' @ [TAB] @ ''='' @ [TAB] @ ''-1'' @ [TAB] @ ''99999999999999999999''
        @ [TAB] @ ''TTAGATAA'' @ [TAB] @ ''*'')
     = Inr \<lparr>Qname = ''r001'', Flag = 0, RefName = ''chr1'', Pos = 5, Mapq = 44, Cigar = ''8M'',
            NextRef = ''='', NextPos = 4294967295, TemplateLen = 4294967295,
            Seq = ''TTAGATAA'', Qual = ''*''\<rparr>
   \<and> stored ''x9'' = 0 \<and> stored ''4294967301'' = 4294967301 \<and> stored ''300'' = 300
   \<and> stored ''-1'' = - 1 \<and> stored ''99999999999999999999'' = 9223372036854775807
   \<and> parseRefSeqDict_fields [''LN:12ab''] \<lparr>RefSeqDict.Name = ''chr1'', Length = 7, AssemblyID = [],
         MD5 = [], Species = [], URI = []\<rparr>
     = Inr \<lparr>RefSeqDict.Name = ''chr1'', Length = 0, AssemblyID = [], MD5 = [], Species = [], URI = []\<rparr>"
proof -
  let ?line = "''r001'' @ [TAB] @ ''x9'' @ [TAB] @ ''chr1'' @ [TAB] @ ''4294967301'' @ [TAB] @ ''300''
        @ [TAB] @ ''8M'' @ [TAB] @ ''='' @ [TAB] @ ''-1'' @ [TAB] @ ''99999999999999999999''
        @ [TAB] @ ''TTAGATAA'' @ [TAB] @ ''*''"
  let ?rsd = "\<lparr>RefSeqDict.Name = ''chr1'', Length = 7, AssemblyID = [],
         MD5 = [], Species = [], URI = []\<rparr>"
  have fields: "Split ?line TAB = ''r001'' # ''x9'' # ''chr1'' # ''4294967301'' # ''300'' # ''8M''
      # ''='' # ''-1'' # ''99999999999999999999'' # ''TTAGATAA'' # ''*'' # []"
    by simp
  have tv: "Split ''LN:12ab'' (CHR '':'') = ''LN'' # ''12ab'' # []"
    by simp
  have vals: "stored ''x9'' = 0" "stored ''4294967301'' = 4294967301" "stored ''300'' = 300"
    "stored ''-1'' = - 1" "stored ''99999999999999999999'' = 9223372036854775807"
    "stored ''12ab'' = 0"
    by (simp_all add: stored_def decimal_def decimal_value_def digits_val_def isdigit_def)
  from numeric_fields_stored[OF fields tv, of "[]" ?rsd] vals
  show ?thesis
    by (simp add: parseAlignment_def index_def andThen_def Atoi_stored)
qed

text \<open>
  C10, as stated, fails: the length \<open>2^63\<close> is a decimal integer that exceeds the 32 bits
  of the field; neither 0 nor its value modulo \<open>2^32\<close>, which is 0 too, is kept, but
  \<open>2^32 - 1\<close>.
\<close>

theorem length_beyond_int_saturates:
  "parseRefSeqDict (''@SQ'' @ [TAB] @ ''SN:chr1'' @ [TAB] @ ''LN:9223372036854775808'')
     = Inr \<lparr>RefSeqDict.Name = ''chr1'', Length = 4294967295, AssemblyID = [], MD5 = [],
            Species = [], URI = []\<rparr>
   \<and> (9223372036854775808 :: int) mod 2 ^ 32 = 0"
  by (simp add: goSAM_defs)

end
